theory Spec2Isabelle
  imports Complex_Main
begin

section \<open>Tensors\<close>

text \<open>
  A torch tensor is modelled by its shape and its elements in row-major (contiguous)
  order. Elements are real numbers: rounding of the floating-point division and NaN are
  outside the model. A tensor of torch always holds as many elements as its shape says;
  \<open>wf_tensor\<close> states it.
\<close>

record tensor =
  shape :: "nat list"
  data :: "real list"

definition wf_tensor :: "tensor \<Rightarrow> bool" where
  "wf_tensor t \<longleftrightarrow> length (data t) = prod_list (shape t)"

text \<open>
  The exceptions of the encoder, one constructor for each raise of the source:
  \<^item> \<open>UnknownVariant v\<close>: \<^verbatim>\<open>ValueError(f"Unknown variant {model_variant}")\<close>;
  \<^item> \<open>ContextWithIncludeTop\<close>:
    \<^verbatim>\<open>AssertionError("Cannot use context with include_top=True")\<close>;
  \<^item> \<open>UnexpectedImageShape s\<close>: \<^verbatim>\<open>AssertionError(f"Unexpected image shape: {image.shape}")\<close>;
  \<^item> \<open>ValueRangeAssertion\<close>: the bare AssertionError of the range check;
  \<^item> \<open>RuntimeError\<close> and \<open>IndexError\<close>: raised by torch itself (reduction of an empty
    tensor, a dimension out of range, a channel mismatch).
\<close>

datatype error =
    UnknownVariant string
  | ContextWithIncludeTop
  | UnexpectedImageShape "nat list"
  | ValueRangeAssertion
  | RuntimeError
  | IndexError

text \<open>The elements of a rank-4 tensor, listed in row-major order.\<close>

definition tabulate4 ::
  "nat \<Rightarrow> nat \<Rightarrow> nat \<Rightarrow> nat \<Rightarrow> (nat \<Rightarrow> nat \<Rightarrow> nat \<Rightarrow> nat \<Rightarrow> 'a) \<Rightarrow> 'a list" where
  "tabulate4 n0 n1 n2 n3 g =
     concat (map (\<lambda>i. concat (map (\<lambda>j. concat (map (\<lambda>k. map (\<lambda>l. g i j k l) [0..<n3])
       [0..<n2])) [0..<n1])) [0..<n0])"

text \<open>Element \<open>t[i, j, k, l]\<close> of a rank-4 tensor.\<close>

definition at4 :: "tensor \<Rightarrow> nat \<Rightarrow> nat \<Rightarrow> nat \<Rightarrow> nat \<Rightarrow> real" where
  "at4 t i j k l =
     data t ! (((i * (shape t ! 1) + j) * (shape t ! 2) + k) * (shape t ! 3) + l)"

text \<open>
  \<^verbatim>\<open>t.unsqueeze(d)\<close>: a new axis of size 1 at position \<open>d\<close>, which must not exceed the
  rank; the elements stay as they are.
\<close>

definition unsqueeze :: "nat \<Rightarrow> tensor \<Rightarrow> error + tensor" where
  "unsqueeze d t =
     (if d \<le> length (shape t)
      then Inr (t\<lparr>shape := take d (shape t) @ 1 # drop d (shape t)\<rparr>)
      else Inl IndexError)"

text \<open>
  \<^verbatim>\<open>t.permute(0, 3, 1, 2)\<close>, called by the encoder on rank-4 tensors only: axis 3 moves to
  position 1, so that the result at \<open>[i, j, k, l]\<close> is \<open>t[i, k, l, j]\<close>.
\<close>

definition permute_0312 :: "tensor \<Rightarrow> tensor" where
  "permute_0312 t =
     \<lparr>shape = [shape t ! 0, shape t ! 3, shape t ! 1, shape t ! 2],
      data = tabulate4 (shape t ! 0) (shape t ! 3) (shape t ! 1) (shape t ! 2)
               (\<lambda>i j k l. at4 t i k l j)\<rparr>"

text \<open>\<^verbatim>\<open>torch.max(t)\<close> and \<^verbatim>\<open>torch.min(t)\<close> over all elements; torch raises on an empty tensor.\<close>

definition torch_max :: "tensor \<Rightarrow> error + real" where
  "torch_max t = (case data t of [] \<Rightarrow> Inl RuntimeError | x # xs \<Rightarrow> Inr (fold max xs x))"

definition torch_min :: "tensor \<Rightarrow> error + real" where
  "torch_min t = (case data t of [] \<Rightarrow> Inl RuntimeError | x # xs \<Rightarrow> Inr (fold min xs x))"

text \<open>\<^verbatim>\<open>t / c\<close> for a scalar \<open>c\<close>.\<close>

definition div_scalar :: "tensor \<Rightarrow> real \<Rightarrow> tensor" where
  "div_scalar t c = t\<lparr>data := map (\<lambda>x. x / c) (data t)\<rparr>"

text \<open>
  \<^verbatim>\<open>t.flatten(1)\<close>: the axes from 1 on are merged into one; torch raises on a tensor of
  rank below 2.
\<close>

definition flatten1 :: "tensor \<Rightarrow> error + tensor" where
  "flatten1 t =
     (if length (shape t) < 2 then Inl IndexError
      else Inr \<lparr>shape = [hd (shape t), prod_list (tl (shape t))], data = data t\<rparr>)"

text \<open>
  \<^verbatim>\<open>nn.functional.avg_pool2d(t, (kh, kw))\<close> on a rank-4 tensor \<open>(B, C, H, W)\<close>: the stride
  is the kernel, there is no padding, and each output element is the mean of its window.
  torch raises when a channel or spatial axis is empty or the kernel does not fit. The
  encoder only passes tensors of rank 4 or more; ranks above 4 are refused by torch.
\<close>

definition avg_pool2d :: "tensor \<Rightarrow> nat \<times> nat \<Rightarrow> error + tensor" where
  "avg_pool2d t ks =
     (let s = shape t; kh = fst ks; kw = snd ks in
      if length s \<noteq> 4 \<or> s ! 1 = 0 \<or> s ! 2 = 0 \<or> s ! 3 = 0
         \<or> kh = 0 \<or> kw = 0 \<or> s ! 2 < kh \<or> s ! 3 < kw
      then Inl RuntimeError
      else
        let oh = (s ! 2 - kh) div kh + 1; ow = (s ! 3 - kw) div kw + 1 in
        Inr \<lparr>shape = [s ! 0, s ! 1, oh, ow],
             data = tabulate4 (s ! 0) (s ! 1) oh ow
               (\<lambda>b c i j.
                  (\<Sum>di\<leftarrow>[0..<kh]. \<Sum>dj\<leftarrow>[0..<kw]. at4 t b c (i * kh + di) (j * kw + dj))
                  / real (kh * kw))\<rparr>)"

section \<open>The modules the encoder owns\<close>

text \<open>
  \<^verbatim>\<open>nn.Conv2d(in_channels, out_channels, kernel_size=(1, 1), stride=(1, 1),
  padding="same", bias=False)\<close>: with a 1x1 kernel, stride 1 and no bias the layer is a
  linear map over the channels at every position. \<open>weight o c\<close> is the weight from input
  channel \<open>c\<close> to output channel \<open>o\<close>. The encoder only passes tensors of rank 4 or more;
  torch raises on ranks above 4 and on a channel count other than \<open>in_channels\<close>.
\<close>

record conv2d =
  in_channels :: nat
  out_channels :: nat
  weight :: "nat \<Rightarrow> nat \<Rightarrow> real"

definition conv2d_forward :: "conv2d \<Rightarrow> tensor \<Rightarrow> error + tensor" where
  "conv2d_forward cv t =
     (let s = shape t in
      if length s \<noteq> 4 \<or> s ! 1 \<noteq> in_channels cv then Inl RuntimeError
      else
        Inr \<lparr>shape = [s ! 0, out_channels cv, s ! 2, s ! 3],
             data = tabulate4 (s ! 0) (out_channels cv) (s ! 2) (s ! 3)
               (\<lambda>b oc h w. \<Sum>ic\<leftarrow>[0..<in_channels cv]. weight cv oc ic * at4 t b ic h w)\<rparr>)"

text \<open>
  The backbone and the FiLM layer are modules of the repository defined in other files.
  The encoder uses them as callables, which is how they are modelled: the backbone maps
  an image and an optional context to features, the FiLM layer maps a feature map and a
  context to a feature map, and both may raise.
\<close>

type_synonym backbone = "tensor \<Rightarrow> tensor option \<Rightarrow> error + tensor"

record film_conditioning =
  num_channels :: nat
  film_forward :: "tensor \<Rightarrow> tensor \<Rightarrow> error + tensor"

text \<open>
  What the encoder takes from outside its file:
  \<^item> \<open>filmefficientnet_b3 include_top weights\<close>, the backbone factory;
  \<^item> \<open>FilmConditioning n\<close>, the forward function of a FiLM layer of \<open>n\<close> channels;
  \<^item> \<open>kaiming_normal\<close>, the weights that \<^verbatim>\<open>nn.init.kaiming_normal_\<close> draws for the 1x1
    convolution;
  \<^item> \<open>transforms\<close>, the preprocessing
    \<^verbatim>\<open>EfficientNet_B3_Weights.DEFAULT.transforms(antialias=True)\<close>.
\<close>

record collaborators =
  filmefficientnet_b3 :: "bool \<Rightarrow> string option \<Rightarrow> error + backbone"
  FilmConditioning :: "nat \<Rightarrow> tensor \<Rightarrow> tensor \<Rightarrow> error + tensor"
  kaiming_normal :: "nat \<Rightarrow> nat \<Rightarrow> real"
  transforms :: "tensor \<Rightarrow> error + tensor"

text \<open>The table \<^verbatim>\<open>_MODELS\<close>.\<close>

definition MODELS :: "collaborators \<Rightarrow> string \<rightharpoonup> (bool \<Rightarrow> string option \<Rightarrow> error + backbone)" where
  "MODELS env = [''b3'' \<mapsto> filmefficientnet_b3 env]"

section \<open>The encoder\<close>

record encoder =
  net :: backbone
  include_top :: bool
  conv1x1 :: conv2d
  film_layer :: film_conditioning
  pooling :: bool

text \<open>\<^verbatim>\<open>FilmEfficientNetEncoder.__init__\<close>.\<close>

definition init ::
  "collaborators \<Rightarrow> string \<Rightarrow> string option \<Rightarrow> bool \<Rightarrow> bool \<Rightarrow> error + encoder" where
  "init env model_variant weights include_top_arg pooling_arg =
     (case MODELS env model_variant of
        None \<Rightarrow> Inl (UnknownVariant model_variant)
      | Some make_net \<Rightarrow>
          (case make_net include_top_arg weights of
             Inl e \<Rightarrow> Inl e
           | Inr n \<Rightarrow>
               Inr \<lparr>net = n,
                    include_top = include_top_arg,
                    conv1x1 = \<lparr>in_channels = 1536, out_channels = 512,
                               weight = kaiming_normal env\<rparr>,
                    film_layer = \<lparr>num_channels = 512,
                                  film_forward = FilmConditioning env 512\<rparr>,
                    pooling = pooling_arg\<rparr>))"

text \<open>
  The canonicalization of the image, lines 66 to 76 of \<^verbatim>\<open>forward\<close>: the batch axis is
  added to a rank-3 image, the rank is asserted to be 4, a channel-last image is
  permuted, a raw image is rescaled, and the range is asserted.
\<close>

definition canonicalize :: "tensor \<Rightarrow> error + tensor" where
  "canonicalize image0 =
     (let image1 = (if length (shape image0) = 3
                    then image0\<lparr>shape := 1 # shape image0\<rparr> else image0) in
      if length (shape image1) \<noteq> 4 then Inl (UnexpectedImageShape (shape image1))
      else
        let image2 = (if shape image1 ! 3 = 3 then permute_0312 image1 else image1) in
        case torch_max image2 of
          Inl e \<Rightarrow> Inl e
        | Inr m \<Rightarrow>
            let image3 = (if m \<ge> 1 then div_scalar image2 255 else image2) in
            (case torch_min image3 of
               Inl e \<Rightarrow> Inl e
             | Inr lo \<Rightarrow>
                 if \<not> lo \<ge> 0 then Inl ValueRangeAssertion
                 else (case torch_max image3 of
                         Inl e \<Rightarrow> Inl e
                       | Inr hi \<Rightarrow>
                           if hi \<le> 1 then Inr image3 else Inl ValueRangeAssertion)))"

text \<open>
  The calls that \<^verbatim>\<open>forward\<close> makes to the preprocessing, to the modules of the encoder
  and to the pooling are recorded in a log, in the order they are made.
\<close>

datatype stage = Preprocess | Net | Conv1x1 | FilmLayer | AvgPool2d

type_synonym 'a logged = "stage list \<times> (error + 'a)"

definition pure_step :: "error + 'a \<Rightarrow> 'a logged" where
  "pure_step r = ([], r)"

definition invoke :: "stage \<Rightarrow> error + 'a \<Rightarrow> 'a logged" where
  "invoke s r = ([s], r)"

text \<open>Sequencing: an exception ends the call, and the log keeps what ran before it.\<close>

definition and_then :: "'a logged \<Rightarrow> ('a \<Rightarrow> 'b logged) \<Rightarrow> 'b logged" where
  "and_then m f =
     (case snd m of
        Inl e \<Rightarrow> (fst m, Inl e)
      | Inr x \<Rightarrow> (fst m @ fst (f x), snd (f x)))"

text \<open>
  \<^verbatim>\<open>FilmEfficientNetEncoder.forward\<close>. The kernel of the pooling is read from
  \<^verbatim>\<open>features.shape[2]\<close> and \<^verbatim>\<open>features.shape[3]\<close>, which raise IndexError on a
  feature map of rank below 4, before the pooling is called.
\<close>

definition forward ::
  "collaborators \<Rightarrow> encoder \<Rightarrow> tensor \<Rightarrow> tensor option \<Rightarrow> tensor logged" where
  "forward env self image0 context =
     and_then (pure_step (if include_top self \<and> context \<noteq> None
                          then Inl ContextWithIncludeTop else Inr ())) (\<lambda>_.
     and_then (pure_step (canonicalize image0)) (\<lambda>image1.
     and_then (invoke Preprocess (transforms env image1)) (\<lambda>image2.
     and_then (invoke Net (net self image2 context)) (\<lambda>features0.
     and_then (pure_step (unsqueeze 2 features0)) (\<lambda>features1.
     and_then (pure_step (unsqueeze 3 features1)) (\<lambda>features2.
     and_then (case context of
                 None \<Rightarrow> pure_step (Inr features2)
               | Some c \<Rightarrow>
                   and_then (invoke Conv1x1 (conv2d_forward (conv1x1 self) features2))
                     (\<lambda>features3. invoke FilmLayer (film_forward (film_layer self) features3 c)))
       (\<lambda>features4.
     and_then (if pooling self
               then (if length (shape features4) < 4 then pure_step (Inl IndexError)
                     else invoke AvgPool2d
                            (avg_pool2d features4 (shape features4 ! 2, shape features4 ! 3)))
               else pure_step (Inr features4)) (\<lambda>features5.
     pure_step (flatten1 features5)))))))))"

section \<open>The contracts of the backbone and of the FiLM layer\<close>

text \<open>
  Modelled from the spec: the backbone (\<^verbatim>\<open>filmefficientnet_b3\<close>) and the conditioner
  (\<^verbatim>\<open>FilmConditioning\<close>), which the encoder imports from other files of the
  repository. The spec gives their interfaces: the backbone returns a per-image
  feature summary of rank 2, \<open>(batch, C)\<close>, of a fixed positive width, and the conditioner
  maps a feature map to a feature map by a per-channel affine transform, so that the
  shape is kept.
\<close>

definition backbone_contract :: "backbone \<Rightarrow> bool" where
  "backbone_contract n \<longleftrightarrow>
     (\<forall>x c out. n x c = Inr out \<longrightarrow>
        wf_tensor out \<and> length (shape out) = 2 \<and> 0 < shape out ! 1)"

definition film_contract :: "(tensor \<Rightarrow> tensor \<Rightarrow> error + tensor) \<Rightarrow> bool" where
  "film_contract f \<longleftrightarrow>
     (\<forall>x c out. f x c = Inr out \<longrightarrow>
        shape out = shape x \<and> (wf_tensor x \<longrightarrow> wf_tensor out))"

section \<open>Example collaborators\<close>

text \<open>
  Concrete collaborators, for evaluating the encoder on concrete inputs: a backbone that
  returns constant features of width 1536 (1000 with the classification head), a FiLM
  layer whose modulation is the identity, a fixed draw of the convolution weights and a
  preprocessing that leaves the image as it is.
\<close>

definition example_backbone :: "bool \<Rightarrow> backbone" where
  "example_backbone with_top x c =
     Inr \<lparr>shape = [hd (shape x), if with_top then 1000 else 1536],
          data = replicate (hd (shape x) * (if with_top then 1000 else 1536)) (1 / 2)\<rparr>"

definition example_env :: collaborators where
  "example_env =
     \<lparr>filmefficientnet_b3 = (\<lambda>with_top w. Inr (example_backbone with_top)),
      FilmConditioning = (\<lambda>n x c. Inr x),
      kaiming_normal = (\<lambda>oc ic. if oc = ic then 1 else 0),
      transforms = (\<lambda>x. Inr x)\<rparr>"

definition example_encoder :: "bool \<Rightarrow> bool \<Rightarrow> encoder" where
  "example_encoder with_top pool =
     \<lparr>net = example_backbone with_top,
      include_top = with_top,
      conv1x1 = \<lparr>in_channels = 1536, out_channels = 512,
                 weight = (\<lambda>oc ic. if oc = ic then 1 else 0)\<rparr>,
      film_layer = \<lparr>num_channels = 512, film_forward = (\<lambda>x c. Inr x)\<rparr>,
      pooling = pool\<rparr>"

section \<open>Properties of the tensor operations\<close>

lemma length_concat_uniform:
  assumes "\<And>i. i < n \<Longrightarrow> length (f i) = m"
  shows "length (concat (map f [0..<n])) = n * m"
  using assms by (induction n) (simp_all add: less_Suc_eq)

lemma nth_concat_uniform:
  assumes "\<And>i. i < n \<Longrightarrow> length (f i) = m" "i < n" "j < m"
  shows "concat (map f [0..<n]) ! (i * m + j) = f i ! j"
  using assms
proof (induction n)
  case 0
  then show ?case by simp
next
  case (Suc n)
  have len: "length (concat (map f [0..<n])) = n * m"
    using Suc.prems(1) by (intro length_concat_uniform) simp
  show ?case
  proof (cases "i < n")
    case True
    then have "Suc i \<le> n" by simp
    then have "Suc i * m \<le> n * m" by (rule mult_le_mono1)
    then have "i * m + j < n * m" using Suc.prems(3) by simp
    with True Suc show ?thesis by (simp add: nth_append len)
  next
    case False
    then have "i = n" using Suc.prems(2) by simp
    then show ?thesis using Suc.prems(3) by (simp add: nth_append len)
  qed
qed

lemma length_tabulate4: "length (tabulate4 a b c d g) = a * b * c * d"
  unfolding tabulate4_def
  by (simp add: length_concat_uniform [where m = "b * c * d"]
      length_concat_uniform [where m = "c * d"] length_concat_uniform [where m = d])

lemma nth_tabulate4:
  assumes "i < a" "j < b" "k < c" "l < d"
  shows "tabulate4 a b c d g ! (((i * b + j) * c + k) * d + l) = g i j k l"
proof -
  let ?f3 = "\<lambda>i j k. map (\<lambda>l. g i j k l) [0..<d]"
  let ?f2 = "\<lambda>i j. concat (map (?f3 i j) [0..<c])"
  let ?f1 = "\<lambda>i. concat (map (?f2 i) [0..<b])"
  have l2: "length (?f2 i' j') = c * d" for i' j'
    by (rule length_concat_uniform) simp
  have l1: "length (?f1 i') = b * (c * d)" for i'
    by (rule length_concat_uniform) (rule l2)
  have kl: "k * d + l < c * d"
  proof -
    have "Suc k * d \<le> c * d" using assms(3) by (intro mult_le_mono1) simp
    then show ?thesis using assms(4) by simp
  qed
  have jkl: "j * (c * d) + (k * d + l) < b * (c * d)"
  proof -
    have "Suc j * (c * d) \<le> b * (c * d)" using assms(2) by (intro mult_le_mono1) simp
    then show ?thesis using kl by simp
  qed
  have idx: "((i * b + j) * c + k) * d + l = i * (b * (c * d)) + (j * (c * d) + (k * d + l))"
    by (simp add: algebra_simps)
  have "tabulate4 a b c d g ! (((i * b + j) * c + k) * d + l)
      = concat (map ?f1 [0..<a]) ! (i * (b * (c * d)) + (j * (c * d) + (k * d + l)))"
    unfolding tabulate4_def idx ..
  also have "\<dots> = ?f1 i ! (j * (c * d) + (k * d + l))"
    by (rule nth_concat_uniform [OF l1 assms(1) jkl])
  also have "\<dots> = ?f2 i j ! (k * d + l)"
    by (rule nth_concat_uniform [OF l2 assms(2) kl])
  also have "\<dots> = ?f3 i j k ! l"
    by (rule nth_concat_uniform [OF _ assms(3) assms(4)]) simp
  also have "\<dots> = g i j k l" using assms(4) by simp
  finally show ?thesis .
qed

lemma set_concat_upt: "set (concat (map f [0..<n])) = {x. \<exists>i<n. x \<in> set (f i)}"
  by auto

lemma set_tabulate4:
  "set (tabulate4 a b c d g) = {x. \<exists>i<a. \<exists>j<b. \<exists>k<c. \<exists>l<d. x = g i j k l}"
proof -
  have inner: "set (map (\<lambda>l. g i j k l) [0..<d]) = {x. \<exists>l<d. x = g i j k l}" for i j k
    by auto
  show ?thesis
    unfolding tabulate4_def set_concat_upt inner by simp
qed


lemma idx_step_less:
  fixes x y m n :: nat
  assumes "x < m" "y < n"
  shows "x * n + y < m * n"
proof -
  have "Suc x * n \<le> m * n" using assms(1) by (intro mult_le_mono1) simp
  then show ?thesis using assms(2) by simp
qed

lemma idx4_less:
  fixes i j k l a b c d :: nat
  assumes "i < a" "j < b" "k < c" "l < d"
  shows "((i * b + j) * c + k) * d + l < a * b * c * d"
  by (intro idx_step_less assms)

lemma idx4_decompose:
  fixes n a b c d :: nat
  assumes "n < a * b * c * d"
  shows "\<exists>i<a. \<exists>j<b. \<exists>k<c. \<exists>l<d. n = ((i * b + j) * c + k) * d + l"
proof -
  from assms have pos: "0 < d" "0 < c" "0 < b"
    by (auto intro: Nat.gr0I)
  let ?l = "n mod d" and ?n1 = "n div d"
  let ?k = "?n1 mod c" and ?n2 = "?n1 div c"
  let ?j = "?n2 mod b" and ?i = "?n2 div b"
  have n1: "?n1 < a * b * c" using assms by (simp add: less_mult_imp_div_less)
  then have n2: "?n2 < a * b" by (simp add: less_mult_imp_div_less)
  then have i: "?i < a" by (simp add: less_mult_imp_div_less)
  have "n = ((?i * b + ?j) * c + ?k) * d + ?l" by simp
  moreover have "?j < b" "?k < c" "?l < d" using pos by simp_all
  ultimately show ?thesis using i by blast
qed

lemma set_permute_0312:
  assumes "length (shape t) = 4" "wf_tensor t"
  shows "set (data (permute_0312 t)) = set (data t)"
proof -
  obtain b h w c where s: "shape t = [b, h, w, c]"
    using assms(1) by (auto simp: length_Suc_conv numeral_eq_Suc)
  have len: "length (data t) = b * h * w * c"
    using assms(2) by (simp add: wf_tensor_def s)
  show ?thesis
  proof (intro set_eqI iffI)
    fix x assume "x \<in> set (data (permute_0312 t))"
    then obtain i j k l where "i < b" "j < c" "k < h" "l < w" "x = at4 t i k l j"
      by (auto simp: permute_0312_def set_tabulate4 s)
    then show "x \<in> set (data t)"
      using idx4_less [of i b k h l w j c] by (simp add: at4_def s len)
  next
    fix x assume "x \<in> set (data t)"
    then obtain n where n: "n < b * h * w * c" "x = data t ! n"
      by (auto simp: in_set_conv_nth len)
    from idx4_decompose [OF n(1)] obtain i k l j
      where "i < b" "k < h" "l < w" "j < c" "n = ((i * h + k) * w + l) * c + j"
      by blast
    then have "i < b \<and> j < c \<and> k < h \<and> l < w \<and> x = at4 t i k l j"
      using n(2) by (simp add: at4_def s)
    then show "x \<in> set (data (permute_0312 t))"
      unfolding permute_0312_def by (simp add: set_tabulate4 s) blast
  qed
qed

lemma fold_max_Max: "fold max xs (x::real) = Max (insert x (set xs))"
  using Max.set_eq_fold [of x xs] by simp

lemma fold_min_Min: "fold min xs (x::real) = Min (insert x (set xs))"
  using Min.set_eq_fold [of x xs] by simp

lemma torch_max_iff:
  "torch_max t = Inr m \<longleftrightarrow> data t \<noteq> [] \<and> m = Max (set (data t))"
  by (cases "data t") (auto simp: torch_max_def fold_max_Max)

lemma torch_min_iff:
  "torch_min t = Inr m \<longleftrightarrow> data t \<noteq> [] \<and> m = Min (set (data t))"
  by (cases "data t") (auto simp: torch_min_def fold_min_Min)

lemma torch_max_nonempty:
  "data t \<noteq> [] \<Longrightarrow> torch_max t = Inr (Max (set (data t)))"
  by (simp add: torch_max_iff)

lemma torch_min_nonempty:
  "data t \<noteq> [] \<Longrightarrow> torch_min t = Inr (Min (set (data t)))"
  by (simp add: torch_min_iff)

lemma tabulate4_at4:
  assumes "shape t = [a, b, c, d]" "wf_tensor t"
  shows "tabulate4 a b c d (at4 t) = data t"
proof (rule nth_equalityI)
  show len: "length (tabulate4 a b c d (at4 t)) = length (data t)"
    using assms by (simp add: length_tabulate4 wf_tensor_def)
  fix n assume "n < length (tabulate4 a b c d (at4 t))"
  then have "n < a * b * c * d" by (simp add: length_tabulate4)
  from idx4_decompose [OF this] obtain i j k l
    where lt: "i < a" "j < b" "k < c" "l < d" and n: "n = ((i * b + j) * c + k) * d + l"
    by blast
  show "tabulate4 a b c d (at4 t) ! n = data t ! n"
    unfolding n nth_tabulate4 [OF lt] by (simp add: at4_def assms(1))
qed

lemma avg_pool2d_unit:
  assumes "shape t = [b, c, 1, 1]" "0 < c" "wf_tensor t"
  shows "avg_pool2d t (1, 1) = Inr t"
proof -
  have "tabulate4 b c 1 1 (\<lambda>b' c' i j. at4 t b' c' i j) = data t"
    using tabulate4_at4 [OF assms(1,3)] by simp
  then show ?thesis
    using assms(1,2) by (simp add: avg_pool2d_def Let_def)
qed

section \<open>Properties of the canonicalization\<close>

lemma canonicalize_rank3:
  "length (shape image0) = 3 \<Longrightarrow>
     canonicalize image0 = canonicalize (image0\<lparr>shape := 1 # shape image0\<rparr>)"
  by (simp add: canonicalize_def)

lemma canonicalize_bad_rank:
  "length (shape image0) \<noteq> 3 \<Longrightarrow> length (shape image0) \<noteq> 4 \<Longrightarrow>
     canonicalize image0 = Inl (UnexpectedImageShape (shape image0))"
  by (simp add: canonicalize_def)

lemma range_check_cases:
  assumes "data t \<noteq> []"
  shows "(case torch_max t of
            Inl e \<Rightarrow> Inl e
          | Inr m \<Rightarrow>
              let image3 = (if m \<ge> 1 then div_scalar t 255 else t) in
              (case torch_min image3 of
                 Inl e \<Rightarrow> Inl e
               | Inr lo \<Rightarrow>
                   if \<not> lo \<ge> 0 then Inl ValueRangeAssertion
                   else (case torch_max image3 of
                           Inl e \<Rightarrow> Inl e
                         | Inr hi \<Rightarrow>
                             if hi \<le> 1 then Inr image3 else Inl ValueRangeAssertion))) =
         (if \<exists>x\<in>set (data t). 1 \<le> x
          then (if \<forall>x\<in>set (data t). 0 \<le> x \<and> x \<le> 255
                then Inr (div_scalar t 255) else Inl ValueRangeAssertion)
          else (if \<forall>x\<in>set (data t). 0 \<le> x
                then Inr t else Inl ValueRangeAssertion))"
proof -
  let ?S = "set (data t)"
  let ?D = "(\<lambda>x. x / 255) ` ?S"
  have fin: "finite ?S" "?S \<noteq> {}" using assms by simp_all
  have find: "finite ?D" "?D \<noteq> {}" using fin by simp_all
  have ned: "data (div_scalar t 255) \<noteq> []" using assms by (simp add: div_scalar_def)
  have Sd: "set (data (div_scalar t 255)) = ?D" by (simp add: div_scalar_def)
  have mx: "torch_max t = Inr (Max ?S)" by (rule torch_max_nonempty [OF assms])
  have mn: "torch_min t = Inr (Min ?S)" by (rule torch_min_nonempty [OF assms])
  have mxd: "torch_max (div_scalar t 255) = Inr (Max ?D)"
    using torch_max_nonempty [OF ned] Sd by simp
  have mnd: "torch_min (div_scalar t 255) = Inr (Min ?D)"
    using torch_min_nonempty [OF ned] Sd by simp
  have ge1: "1 \<le> Max ?S \<longleftrightarrow> (\<exists>x\<in>?S. 1 \<le> x)"
    using fin by (simp add: Max_ge_iff)
  have lo: "0 \<le> Min ?S \<longleftrightarrow> (\<forall>x\<in>?S. 0 \<le> x)"
    using fin by (simp add: Min_ge_iff)
  have hi: "Max ?S \<le> 1 \<longleftrightarrow> (\<forall>x\<in>?S. x \<le> 1)"
    using fin by (simp add: Max_le_iff)
  have lod: "0 \<le> Min ?D \<longleftrightarrow> (\<forall>x\<in>?S. 0 \<le> x)"
    using find by (simp add: Min_ge_iff)
  have hid: "Max ?D \<le> 1 \<longleftrightarrow> (\<forall>x\<in>?S. x \<le> 255)"
    using find by (simp add: Max_le_iff)
  show ?thesis
  proof (cases "\<exists>x\<in>?S. 1 \<le> x")
    case True
    then have m1: "1 \<le> Max ?S" using ge1 by blast
    have "(if \<not> 0 \<le> Min ?D then Inl ValueRangeAssertion
           else if Max ?D \<le> 1 then Inr (div_scalar t 255) else Inl ValueRangeAssertion) =
          (if \<forall>x\<in>?S. 0 \<le> x \<and> x \<le> 255
           then Inr (div_scalar t 255) else Inl ValueRangeAssertion)"
      unfolding lod hid by auto
    then show ?thesis
      using True m1 by (simp only: mx mxd mnd Let_def sum.case if_True)
  next
    case False
    then have m1: "\<not> 1 \<le> Max ?S" using ge1 by blast
    have "\<forall>x\<in>?S. x \<le> 1" using False by force
    then have h1: "Max ?S \<le> 1" using hi by blast
    have "(if \<not> 0 \<le> Min ?S then Inl ValueRangeAssertion else Inr t) =
          (if \<forall>x\<in>?S. 0 \<le> x then Inr t else Inl ValueRangeAssertion)"
      unfolding lo by auto
    then show ?thesis
      using False m1 h1 by (simp only: mx mn Let_def sum.case if_True if_False)
  qed
qed

lemma canonicalize_rank4:
  assumes "length (shape image1) = 4" "wf_tensor image1" "data image1 \<noteq> []"
  shows "canonicalize image1 =
    (let image2 = (if shape image1 ! 3 = 3 then permute_0312 image1 else image1) in
     if \<exists>x\<in>set (data image1). 1 \<le> x
     then (if \<forall>x\<in>set (data image1). 0 \<le> x \<and> x \<le> 255
           then Inr (div_scalar image2 255) else Inl ValueRangeAssertion)
     else (if \<forall>x\<in>set (data image1). 0 \<le> x
           then Inr image2 else Inl ValueRangeAssertion))"
proof -
  define image2 where "image2 = (if shape image1 ! 3 = 3 then permute_0312 image1 else image1)"
  have S: "set (data image2) = set (data image1)"
    using set_permute_0312 [OF assms(1,2)] by (simp add: image2_def)
  have ne: "data image2 \<noteq> []" using S assms(3) by (metis set_empty)
  have "canonicalize image1 =
      (case torch_max image2 of
            Inl e \<Rightarrow> Inl e
          | Inr m \<Rightarrow>
              let image3 = (if m \<ge> 1 then div_scalar image2 255 else image2) in
              (case torch_min image3 of
                 Inl e \<Rightarrow> Inl e
               | Inr lo \<Rightarrow>
                   if \<not> lo \<ge> 0 then Inl ValueRangeAssertion
                   else (case torch_max image3 of
                           Inl e \<Rightarrow> Inl e
                         | Inr hi \<Rightarrow>
                             if hi \<le> 1 then Inr image3 else Inl ValueRangeAssertion)))"
    unfolding canonicalize_def image2_def using assms(1) by (simp add: Let_def)
  also note range_check_cases [OF ne]
  finally have "canonicalize image1 =
         (if \<exists>x\<in>set (data image2). 1 \<le> x
          then (if \<forall>x\<in>set (data image2). 0 \<le> x \<and> x \<le> 255
                then Inr (div_scalar image2 255) else Inl ValueRangeAssertion)
          else (if \<forall>x\<in>set (data image2). 0 \<le> x
                then Inr image2 else Inl ValueRangeAssertion))" .
  then show ?thesis unfolding S by (simp add: Let_def image2_def)
qed

lemma canonicalize_rank34:
  assumes "length (shape image0) = 3 \<or> length (shape image0) = 4"
    and "wf_tensor image0" and "data image0 \<noteq> []"
  shows "canonicalize image0 =
    (let image1 = (if length (shape image0) = 3
                   then image0\<lparr>shape := 1 # shape image0\<rparr> else image0);
         image2 = (if shape image1 ! 3 = 3 then permute_0312 image1 else image1) in
     if \<exists>x\<in>set (data image0). 1 \<le> x
     then (if \<forall>x\<in>set (data image0). 0 \<le> x \<and> x \<le> 255
           then Inr (div_scalar image2 255) else Inl ValueRangeAssertion)
     else (if \<forall>x\<in>set (data image0). 0 \<le> x
           then Inr image2 else Inl ValueRangeAssertion))"
proof (cases "length (shape image0) = 3")
  case True
  let ?i1 = "image0\<lparr>shape := 1 # shape image0\<rparr>"
  have "length (shape ?i1) = 4" "wf_tensor ?i1" "data ?i1 \<noteq> []"
    using True assms(2,3) by (simp_all add: wf_tensor_def)
  from canonicalize_rank4 [OF this] show ?thesis
    using True by (simp add: canonicalize_rank3 Let_def)
next
  case False
  then have "length (shape image0) = 4" using assms(1) by simp
  from canonicalize_rank4 [OF this assms(2,3)] show ?thesis
    using False by (simp add: Let_def)
qed




text \<open>
  Claim C2, as the spec states it: an image whose values all lie in \<open>[0, 1]\<close> is not
  rescaled. It fails at an image whose maximum is exactly 1: the test of the source is
  \<^verbatim>\<open>torch.max(image) >= 1.0\<close>, so the image below, whose values are 0, 1/2 and 1, is
  divided by 255.
\<close>

theorem normalized_image_counterexample:
  "canonicalize \<lparr>shape = [1, 3, 1, 1], data = [0, 1 / 2, 1]\<rparr> =
     Inr \<lparr>shape = [1, 3, 1, 1], data = [0, 1 / 510, 1 / 255]\<rparr> \<and>
   canonicalize \<lparr>shape = [1, 3, 1, 1], data = [0, 1 / 2, 1]\<rparr> \<noteq>
     Inr \<lparr>shape = [1, 3, 1, 1], data = [0, 1 / 2, 1]\<rparr>"
  by (simp add: canonicalize_def torch_max_def torch_min_def div_scalar_def)

text \<open>
  Claim C2, amended. A non-empty image of rank 3 or 4 whose values all lie in \<open>[0, 1)\<close>,
  the maximum strictly below 1, is not rescaled: the canonicalization succeeds and
  returns the image with its batch axis added and, when it is channel-last, permuted. The
  values are those of the image, and when no permutation takes place the elements are the
  same list.
\<close>

theorem normalized_image_is_kept:
  assumes "length (shape image0) = 3 \<or> length (shape image0) = 4"
    and "wf_tensor image0"
    and "data image0 \<noteq> []"
    and "\<forall>x\<in>set (data image0). 0 \<le> x \<and> x < 1"
  shows "let image1 = (if length (shape image0) = 3
                       then image0\<lparr>shape := 1 # shape image0\<rparr> else image0);
             image2 = (if shape image1 ! 3 = 3 then permute_0312 image1 else image1) in
         canonicalize image0 = Inr image2
           \<and> set (data image2) = set (data image0)
           \<and> (shape image1 ! 3 \<noteq> 3 \<longrightarrow> data image2 = data image0)"
proof -
  define image1 where
    "image1 = (if length (shape image0) = 3 then image0\<lparr>shape := 1 # shape image0\<rparr> else image0)"
  define image2 where
    "image2 = (if shape image1 ! 3 = 3 then permute_0312 image1 else image1)"
  have r4: "length (shape image1) = 4" and wf1: "wf_tensor image1"
    and d1: "data image1 = data image0"
    using assms(1,2) by (auto simp: image1_def wf_tensor_def)
  have S: "set (data image2) = set (data image0)"
    using set_permute_0312 [OF r4 wf1] d1 by (simp add: image2_def)
  have no1: "\<not> (\<exists>x\<in>set (data image0). 1 \<le> x)" using assms(4) by force
  have pos: "\<forall>x\<in>set (data image0). 0 \<le> x" using assms(4) by simp
  have "canonicalize image0 = Inr image2"
    using canonicalize_rank34 [OF assms(1,2,3)] no1 pos
    by (simp add: Let_def image1_def image2_def)
  moreover have "shape image1 ! 3 \<noteq> 3 \<longrightarrow> data image2 = data image0"
    using d1 by (simp add: image2_def)
  ultimately show ?thesis
    unfolding Let_def image1_def [symmetric] image2_def [symmetric]
    using S by simp
qed

theorem normalized_image_is_kept_witness:
  "(length (shape \<lparr>shape = [1, 3, 1, 1], data = [0, 1 / 2, 254 / 255]\<rparr>) = 3
      \<or> length (shape \<lparr>shape = [1, 3, 1, 1], data = [0, 1 / 2, 254 / 255]\<rparr>) = 4) \<and>
   wf_tensor \<lparr>shape = [1, 3, 1, 1], data = [0, 1 / 2, 254 / 255]\<rparr> \<and>
   data \<lparr>shape = [1, 3, 1, 1], data = [0, 1 / 2, 254 / 255]\<rparr> \<noteq> [] \<and>
   list_all (\<lambda>x. 0 \<le> x \<and> x < 1) (data \<lparr>shape = [1, 3, 1, 1], data = [0, 1 / 2, 254 / 255]\<rparr>) \<and>
   canonicalize \<lparr>shape = [1, 3, 1, 1], data = [0, 1 / 2, 254 / 255]\<rparr> =
     Inr \<lparr>shape = [1, 3, 1, 1], data = [0, 1 / 2, 254 / 255]\<rparr>"
  using normalized_image_is_kept [of "\<lparr>shape = [1, 3, 1, 1], data = [0, 1 / 2, 254 / 255]\<rparr>"]
  by (simp add: Let_def wf_tensor_def)

lemma at4_permute_0312:
  assumes "shape t = [b, h, w, c]" "i < b" "j < c" "k < h" "l < w"
  shows "at4 (permute_0312 t) i j k l = at4 t i k l j"
proof -
  have "at4 (permute_0312 t) i j k l =
        tabulate4 b c h w (\<lambda>i j k l. at4 t i k l j) ! (((i * c + j) * h + k) * w + l)"
    by (simp add: permute_0312_def assms(1) at4_def [of "\<lparr>shape = s, data = d\<rparr>" for s d])
  also have "\<dots> = at4 t i k l j"
    by (rule nth_tabulate4 [OF assms(2,3,4,5)])
  finally show ?thesis .
qed

lemma canonicalize_empty:
  assumes "length (shape t) = 4" "wf_tensor t" "data t = []"
  shows "canonicalize t = Inl RuntimeError"
proof -
  have "data (permute_0312 t) = []"
    using set_permute_0312 [OF assms(1,2)] assms(3) by simp
  then show ?thesis
    using assms(1,3) by (simp add: canonicalize_def torch_max_def Let_def)
qed

lemma canonicalize_result:
  assumes "length (shape image0) = 4" "wf_tensor image0" "canonicalize image0 = Inr out"
  shows "out = (let image2 = (if shape image0 ! 3 = 3 then permute_0312 image0 else image0) in
                if \<exists>y\<in>set (data image0). 1 \<le> y then div_scalar image2 255 else image2)"
proof -
  have ne: "data image0 \<noteq> []"
    using canonicalize_empty [OF assms(1,2)] assms(3) by auto
  show ?thesis
    using canonicalize_rank4 [OF assms(1,2) ne] assms(3)
    by (auto simp: Let_def split: if_splits)
qed

lemma canonicalize_keeps_layout:
  assumes "shape image0 = [b, d1, d2, d3]" "d3 \<noteq> 3"
    and "wf_tensor image0"
    and "canonicalize image0 = Inr out"
  shows "shape out = [b, d1, d2, d3] \<and>
         data out = map (\<lambda>x. if \<exists>y\<in>set (data image0). 1 \<le> y then x / 255 else x)
                      (data image0)"
proof -
  have r4: "length (shape image0) = 4" by (simp add: assms(1))
  show ?thesis
    using canonicalize_result [OF r4 assms(3,4)] assms(2)
    by (simp add: assms(1) Let_def div_scalar_def)
qed

lemma canonicalize_moves_channels:
  assumes "shape image0 = [b, d1, d2, 3]"
    and "wf_tensor image0"
    and "canonicalize image0 = Inr out"
  shows "shape out = [b, 3, d1, d2]"
    and "i < b \<Longrightarrow> c < 3 \<Longrightarrow> h < d1 \<Longrightarrow> w < d2 \<Longrightarrow>
         at4 out i c h w =
           (if \<exists>y\<in>set (data image0). 1 \<le> y
            then at4 image0 i h w c / 255 else at4 image0 i h w c)"
proof -
  have r4: "length (shape image0) = 4" by (simp add: assms(1))
  note res = canonicalize_result [OF r4 assms(2,3)]
  show "shape out = [b, 3, d1, d2]"
    using res by (simp add: assms(1) Let_def div_scalar_def permute_0312_def)
  assume lt: "i < b" "c < 3" "h < d1" "w < d2"
  have p: "at4 (permute_0312 image0) i c h w = at4 image0 i h w c"
    by (rule at4_permute_0312 [OF assms(1) lt(1,2,3,4)])
  have len: "length (data (permute_0312 image0)) = b * 3 * d1 * d2"
    by (simp add: permute_0312_def assms(1) length_tabulate4)
  have idx: "((i * 3 + c) * d1 + h) * d2 + w < length (data (permute_0312 image0))"
    unfolding len by (rule idx4_less [OF lt])
  have sp: "shape (permute_0312 image0) = [b, 3, d1, d2]"
    by (simp add: permute_0312_def assms(1))
  have pd: "at4 (div_scalar (permute_0312 image0) 255) i c h w
            = at4 (permute_0312 image0) i c h w / 255"
    using idx by (simp add: at4_def div_scalar_def sp)
  show "at4 out i c h w =
       (if \<exists>y\<in>set (data image0). 1 \<le> y then at4 image0 i h w c / 255 else at4 image0 i h w c)"
    using res p pd by (simp add: assms(1) Let_def)
qed

text \<open>
  Claim C7. For a rank-4 image on which the canonicalization succeeds, the layout
  follows the trailing axis alone. If the trailing axis is not 3, no axis is permuted:
  the shape is kept and the elements stay in their order (each divided by 255 when the
  image is rescaled, and left as it is otherwise). If the trailing axis is 3, the axes
  are permuted so that the channels stand at position 1: the shape \<open>(b, h, w, 3)\<close> becomes
  \<open>(b, 3, h, w)\<close>, and the element at \<open>[i, c, h, w]\<close> of the result is the element at
  \<open>[i, h, w, c]\<close> of the image (divided by 255 when the image is rescaled).
\<close>

theorem layout_follows_trailing_axis:
  assumes "shape image0 = [b, d1, d2, d3]"
    and "wf_tensor image0"
    and "canonicalize image0 = Inr out"
  shows "let scale = (\<lambda>x. if \<exists>y\<in>set (data image0). 1 \<le> y then x / 255 else x) in
         (d3 \<noteq> 3 \<longrightarrow> shape out = [b, d1, d2, d3] \<and> data out = map scale (data image0)) \<and>
         (d3 = 3 \<longrightarrow> shape out = [b, 3, d1, d2] \<and>
            (\<forall>i<b. \<forall>c<3. \<forall>h<d1. \<forall>w<d2. at4 out i c h w = scale (at4 image0 i h w c)))"
proof -
  have keep: "d3 \<noteq> 3 \<Longrightarrow> shape out = [b, d1, d2, d3] \<and>
      data out = map (\<lambda>x. if \<exists>y\<in>set (data image0). 1 \<le> y then x / 255 else x) (data image0)"
    by (rule canonicalize_keeps_layout [OF assms(1) _ assms(2,3)])
  have move: "shape out = [b, 3, d1, d2] \<and>
      (\<forall>i<b. \<forall>c<3. \<forall>h<d1. \<forall>w<d2. at4 out i c h w =
         (if \<exists>y\<in>set (data image0). 1 \<le> y then at4 image0 i h w c / 255 else at4 image0 i h w c))"
    if d3: "d3 = 3"
    using canonicalize_moves_channels [OF assms(1) [unfolded d3] assms(2,3)] by blast
  show ?thesis
    unfolding Let_def using keep move by blast
qed

theorem layout_follows_trailing_axis_witness:
  "shape \<lparr>shape = [1, 1, 2, 3], data = [0, 51, 102, 153, 204, 255]\<rparr> = [1, 1, 2, 3] \<and>
   wf_tensor \<lparr>shape = [1, 1, 2, 3], data = [0, 51, 102, 153, 204, 255]\<rparr> \<and>
   canonicalize \<lparr>shape = [1, 1, 2, 3], data = [0, 51, 102, 153, 204, 255]\<rparr> =
     Inr \<lparr>shape = [1, 3, 1, 2], data = [0, 3 / 5, 1 / 5, 4 / 5, 2 / 5, 1]\<rparr> \<and>
   shape \<lparr>shape = [1, 3, 1, 2], data = [0, 3 / 5, 1 / 5, 4 / 5, 2 / 5, 1 :: real]\<rparr> = [1, 3, 1, 2] \<and>
   at4 \<lparr>shape = [1, 3, 1, 2], data = [0, 3 / 5, 1 / 5, 4 / 5, 2 / 5, 1]\<rparr> 0 2 0 1 =
     at4 \<lparr>shape = [1, 1, 2, 3], data = [0, 51, 102, 153, 204, 255]\<rparr> 0 0 1 2 / 255 \<and>
   shape \<lparr>shape = [1, 3, 1, 2], data = [0, 1 / 5, 2 / 5, 3 / 5, 4 / 5, 9 / 10]\<rparr> = [1, 3, 1, 2] \<and>
   wf_tensor \<lparr>shape = [1, 3, 1, 2], data = [0, 1 / 5, 2 / 5, 3 / 5, 4 / 5, 9 / 10]\<rparr> \<and>
   canonicalize \<lparr>shape = [1, 3, 1, 2], data = [0, 1 / 5, 2 / 5, 3 / 5, 4 / 5, 9 / 10]\<rparr> =
     Inr \<lparr>shape = [1, 3, 1, 2], data = [0, 1 / 5, 2 / 5, 3 / 5, 4 / 5, 9 / 10]\<rparr>"
proof -
  have c1: "canonicalize \<lparr>shape = [1, 1, 2, 3], data = [0, 51, 102, 153, 204, 255]\<rparr> =
      Inr \<lparr>shape = [1, 3, 1, 2], data = [0, 3 / 5, 1 / 5, 4 / 5, 2 / 5, 1]\<rparr>"
    by (simp add: canonicalize_def torch_max_def torch_min_def Let_def permute_0312_def
        tabulate4_def at4_def div_scalar_def numeral_2_eq_2 numeral_3_eq_3)
  have c2: "canonicalize \<lparr>shape = [1, 3, 1, 2], data = [0, 1 / 5, 2 / 5, 3 / 5, 4 / 5, 9 / 10]\<rparr> =
      Inr \<lparr>shape = [1, 3, 1, 2], data = [0, 1 / 5, 2 / 5, 3 / 5, 4 / 5, 9 / 10]\<rparr>"
    by (simp add: canonicalize_def torch_max_def torch_min_def Let_def)
  have w1: "wf_tensor \<lparr>shape = [1, 1, 2, 3], data = [0, 51, 102, 153, 204, 255]\<rparr>"
    and w2: "wf_tensor \<lparr>shape = [1, 3, 1, 2], data = [0, 1 / 5, 2 / 5, 3 / 5, 4 / 5, 9 / 10]\<rparr>"
    by (simp_all add: wf_tensor_def)
  show ?thesis
    using layout_follows_trailing_axis [OF _ w1 c1, of 1 1 2 3]
      layout_follows_trailing_axis [OF _ w2 c2, of 1 3 1 2] c1 c2 w1 w2
    by (simp add: Let_def at4_def)
qed

text \<open>
  Claim C10. The permutation is applied to every rank-4 image whose trailing axis is 3,
  whatever the other axes are: nothing is assumed of the axis at position 1, which may be
  3 as well. The element at \<open>[i, j, k, l]\<close> of the image is found at \<open>[i, l, j, k]\<close> of the
  result. So a channel-first image of width 3, of shape \<open>(b, 3, h, 3)\<close>, is returned
  without an error with the shape \<open>(b, 3, 3, h)\<close>, its width on the channel axis and its
  channels on the height axis, as the image of shape \<open>(1, 3, 1, 3)\<close> below shows.
\<close>

theorem permutation_ignores_axis_1:
  assumes "shape image0 = [b, d1, d2, 3]"
    and "wf_tensor image0"
    and "canonicalize image0 = Inr out"
  shows "shape out = [b, 3, d1, d2] \<and>
         (\<forall>i<b. \<forall>j<d1. \<forall>k<d2. \<forall>l<3.
            at4 out i l j k =
              (if \<exists>y\<in>set (data image0). 1 \<le> y
               then at4 image0 i j k l / 255 else at4 image0 i j k l))"
  using canonicalize_moves_channels [OF assms] by blast

theorem permutation_ignores_axis_1_witness:
  "shape \<lparr>shape = [1, 3, 1, 3],
          data = [0, 1 / 10, 2 / 10, 3 / 10, 4 / 10, 5 / 10, 6 / 10, 7 / 10, 8 / 10]\<rparr>
     = [1, 3, 1, 3] \<and>
   wf_tensor \<lparr>shape = [1, 3, 1, 3],
          data = [0, 1 / 10, 2 / 10, 3 / 10, 4 / 10, 5 / 10, 6 / 10, 7 / 10, 8 / 10]\<rparr> \<and>
   canonicalize \<lparr>shape = [1, 3, 1, 3],
          data = [0, 1 / 10, 2 / 10, 3 / 10, 4 / 10, 5 / 10, 6 / 10, 7 / 10, 8 / 10]\<rparr> =
     Inr \<lparr>shape = [1, 3, 3, 1],
          data = [0, 3 / 10, 6 / 10, 1 / 10, 4 / 10, 7 / 10, 2 / 10, 5 / 10, 8 / 10]\<rparr> \<and>
   at4 \<lparr>shape = [1, 3, 3, 1],
          data = [0, 3 / 10, 6 / 10, 1 / 10, 4 / 10, 7 / 10, 2 / 10, 5 / 10, 8 / 10]\<rparr> 0 2 1 0 =
   at4 \<lparr>shape = [1, 3, 1, 3],
          data = [0, 1 / 10, 2 / 10, 3 / 10, 4 / 10, 5 / 10, 6 / 10, 7 / 10, 8 / 10]\<rparr> 0 1 0 2"
proof -
  have c: "canonicalize \<lparr>shape = [1, 3, 1, 3],
          data = [0, 1 / 10, 2 / 10, 3 / 10, 4 / 10, 5 / 10, 6 / 10, 7 / 10, 8 / 10]\<rparr> =
     Inr \<lparr>shape = [1, 3, 3, 1],
          data = [0, 3 / 10, 6 / 10, 1 / 10, 4 / 10, 7 / 10, 2 / 10, 5 / 10, 8 / 10]\<rparr>"
    by (simp add: canonicalize_def torch_max_def torch_min_def Let_def permute_0312_def
        tabulate4_def at4_def numeral_3_eq_3)
  have w: "wf_tensor \<lparr>shape = [1, 3, 1, 3],
          data = [0, 1 / 10, 2 / 10, 3 / 10, 4 / 10, 5 / 10, 6 / 10, 7 / 10, 8 / 10]\<rparr>"
    by (simp add: wf_tensor_def)
  show ?thesis
    using permutation_ignores_axis_1 [OF _ w c, of 1 3 1] c w
    by (simp add: at4_def)
qed

section \<open>Properties of the forward pass\<close>

lemma and_then_simps:
  "and_then (pure_step (Inl e)) f = ([], Inl e)"
  "and_then (pure_step (Inr x)) f = f x"
  "and_then (invoke s (Inl e)) f = ([s], Inl e)"
  "and_then (invoke s (Inr x)) f = (s # fst (f x), snd (f x))"
  by (simp_all add: and_then_def pure_step_def invoke_def)

lemma and_then_pair:
  "and_then (calls, Inl e) f = (calls, Inl e)"
  "and_then (calls, Inr x) f = (calls @ fst (f x), snd (f x))"
  by (simp_all add: and_then_def)

text \<open>
  Claim C6. On an encoder built with \<open>include_top\<close>, a forward call with a context fails
  with the assertion "Cannot use context with include_top=True", whatever the image and
  the context are. The check comes first: the log of the call is empty, so neither the
  preprocessing nor the backbone nor any later stage has run, and the image is not
  looked at (the call fails in this way also on an image that the canonicalization
  would refuse).
\<close>

theorem include_top_rejects_context:
  "include_top self \<Longrightarrow>
     forward env self image0 (Some c) = ([], Inl ContextWithIncludeTop)"
  by (simp add: forward_def and_then_simps)

theorem include_top_rejects_context_witness:
  "include_top (example_encoder True False) \<and>
   forward example_env (example_encoder True False)
     \<lparr>shape = [1, 1, 1, 3], data = [0, 7, 300]\<rparr>
     (Some \<lparr>shape = [1, 1], data = [0]\<rparr>) = ([], Inl ContextWithIncludeTop)"
  using include_top_rejects_context [of "example_encoder True False" example_env
      "\<lparr>shape = [1, 1, 1, 3], data = [0, 7, 300]\<rparr>" "\<lparr>shape = [1, 1], data = [0]\<rparr>"]
  by (simp add: example_encoder_def)

text \<open>
  Claim C8. A forward call on a rank-3 image returns what the call on the same image
  with a leading batch axis of size 1 returns: the same result or the same exception,
  after the same calls to the stages, for every encoder and every context.
\<close>

theorem batch_insertion_lossless:
  "length (shape image0) = 3 \<Longrightarrow>
     forward env self image0 context =
     forward env self (image0\<lparr>shape := 1 # shape image0\<rparr>) context"
  by (simp add: forward_def canonicalize_rank3)

theorem batch_insertion_lossless_witness:
  "length (shape \<lparr>shape = [1, 2, 3], data = [0, 51, 102, 153, 204, 255]\<rparr>) = 3 \<and>
   forward example_env (example_encoder False True)
     \<lparr>shape = [1, 2, 3], data = [0, 51, 102, 153, 204, 255]\<rparr> None =
   forward example_env (example_encoder False True)
     \<lparr>shape = [1, 1, 2, 3], data = [0, 51, 102, 153, 204, 255]\<rparr> None"
  using batch_insertion_lossless [of "\<lparr>shape = [1, 2, 3], data = [0, 51, 102, 153, 204, 255]\<rparr>"
      example_env "example_encoder False True" None]
  by simp

text \<open>
  Claim C9, as the spec states it: every image whose rank is neither 3 nor 4 makes the
  forward call fail with the assertion "Unexpected image shape". It does not hold when
  the encoder has \<open>include_top\<close> and a context is given: the first check fails before the
  rank is looked at, and the call raises the assertion of that check instead.
\<close>

theorem bad_rank_counterexample:
  "forward example_env (example_encoder True False) \<lparr>shape = [2, 2], data = [0, 0, 0, 0]\<rparr>
     (Some \<lparr>shape = [1, 1], data = [0]\<rparr>) = ([], Inl ContextWithIncludeTop) \<and>
   forward example_env (example_encoder True False) \<lparr>shape = [2, 2], data = [0, 0, 0, 0]\<rparr>
     (Some \<lparr>shape = [1, 1], data = [0]\<rparr>) \<noteq> ([], Inl (UnexpectedImageShape [2, 2]))"
  by (simp add: forward_def and_then_simps example_encoder_def)

text \<open>
  Claim C9, amended. When the first check passes (the encoder has no \<open>include_top\<close>, or
  no context is given), every image whose rank is neither 3 nor 4 makes the forward call
  fail with the assertion "Unexpected image shape", which carries the shape; the log is
  empty, so no stage has run.
\<close>

theorem bad_rank_rejected:
  "length (shape image0) \<noteq> 3 \<Longrightarrow> length (shape image0) \<noteq> 4 \<Longrightarrow>
   \<not> (include_top self \<and> context \<noteq> None) \<Longrightarrow>
     forward env self image0 context = ([], Inl (UnexpectedImageShape (shape image0)))"
  by (simp add: forward_def and_then_simps canonicalize_bad_rank)

theorem bad_rank_rejected_witness:
  "length (shape \<lparr>shape = [2, 2], data = [0, 0, 0, 0]\<rparr>) \<noteq> 3 \<and>
   length (shape \<lparr>shape = [2, 2], data = [0, 0, 0, 0]\<rparr>) \<noteq> 4 \<and>
   \<not> (include_top (example_encoder False False)
        \<and> Some \<lparr>shape = [1, 1], data = [0]\<rparr> \<noteq> None) \<and>
   forward example_env (example_encoder False False) \<lparr>shape = [2, 2], data = [0, 0, 0, 0]\<rparr>
     (Some \<lparr>shape = [1, 1], data = [0]\<rparr>) = ([], Inl (UnexpectedImageShape [2, 2]))"
  using bad_rank_rejected [of "\<lparr>shape = [2, 2], data = [0, 0, 0, 0]\<rparr>"
      "example_encoder False False" "Some \<lparr>shape = [1, 1], data = [0]\<rparr>" example_env]
  by (simp add: example_encoder_def)

text \<open>
  Claim C4. In a forward call without a context neither the projector nor the
  conditioner is called, whatever the outcome of the call. When the canonicalization and
  the preprocessing succeed and the backbone returns features of shape \<open>(b, c)\<close>, the call
  returns exactly these features, of the width \<open>c\<close> of the backbone: the two unit axes that
  are added are removed again, and the pooling, when it is configured, averages over a
  single position. The stages called are the preprocessing, the backbone and, when it is
  configured, the pooling.
\<close>

theorem forward_without_context:
  "Conv1x1 \<notin> set (fst (forward env self image0 None)) \<and>
   FilmLayer \<notin> set (fst (forward env self image0 None)) \<and>
   (canonicalize image0 = Inr image1 \<and> transforms env image1 = Inr image2 \<and>
    net self image2 None = Inr features \<and> wf_tensor features \<and>
    shape features = [b, c] \<and> 0 < c \<longrightarrow>
      forward env self image0 None =
        ([Preprocess, Net] @ (if pooling self then [AvgPool2d] else []), Inr features))"
proof (intro conjI impI)
  show "Conv1x1 \<notin> set (fst (forward env self image0 None))"
    by (auto simp: forward_def and_then_def pure_step_def invoke_def split: sum.splits)
  show "FilmLayer \<notin> set (fst (forward env self image0 None))"
    by (auto simp: forward_def and_then_def pure_step_def invoke_def split: sum.splits)
next
  assume h: "canonicalize image0 = Inr image1 \<and> transforms env image1 = Inr image2 \<and>
    net self image2 None = Inr features \<and> wf_tensor features \<and>
    shape features = [b, c] \<and> 0 < c"
  let ?f = "features\<lparr>shape := [b, c, 1, 1]\<rparr>"
  have sf: "shape ?f = [b, c, 1, 1]" by simp
  have wf: "wf_tensor ?f" using h by (simp add: wf_tensor_def)
  have pool: "avg_pool2d ?f (1, 1) = Inr ?f"
    using h by (intro avg_pool2d_unit [OF sf _ wf]) simp
  have flat: "flatten1 ?f = Inr features"
    using h by (cases features) (simp add: flatten1_def)
  show "forward env self image0 None =
        ([Preprocess, Net] @ (if pooling self then [AvgPool2d] else []), Inr features)"
    using h pool flat
    by (simp add: forward_def and_then_pair unsqueeze_def pure_step_def invoke_def)
qed


theorem forward_without_context_witness:
  "Conv1x1 \<notin> set (fst (forward example_env (example_encoder False True)
      \<lparr>shape = [1, 3, 1, 1], data = [0, 1 / 2, 254 / 255]\<rparr> None)) \<and>
   FilmLayer \<notin> set (fst (forward example_env (example_encoder False True)
      \<lparr>shape = [1, 3, 1, 1], data = [0, 1 / 2, 254 / 255]\<rparr> None)) \<and>
   canonicalize \<lparr>shape = [1, 3, 1, 1], data = [0, 1 / 2, 254 / 255]\<rparr> =
     Inr \<lparr>shape = [1, 3, 1, 1], data = [0, 1 / 2, 254 / 255]\<rparr> \<and>
   transforms example_env \<lparr>shape = [1, 3, 1, 1], data = [0, 1 / 2, 254 / 255]\<rparr> =
     Inr \<lparr>shape = [1, 3, 1, 1], data = [0, 1 / 2, 254 / 255]\<rparr> \<and>
   net (example_encoder False True) \<lparr>shape = [1, 3, 1, 1], data = [0, 1 / 2, 254 / 255]\<rparr> None =
     Inr \<lparr>shape = [1, 1536], data = replicate 1536 (1 / 2)\<rparr> \<and>
   wf_tensor \<lparr>shape = [1, 1536], data = replicate 1536 (1 / 2)\<rparr> \<and>
   shape \<lparr>shape = [1, 1536], data = replicate 1536 (1 / 2 :: real)\<rparr> = [1, 1536] \<and>
   (0 :: nat) < 1536 \<and>
   forward example_env (example_encoder False True)
      \<lparr>shape = [1, 3, 1, 1], data = [0, 1 / 2, 254 / 255]\<rparr> None =
     ([Preprocess, Net, AvgPool2d], Inr \<lparr>shape = [1, 1536], data = replicate 1536 (1 / 2)\<rparr>)"
proof -
  let ?img = "\<lparr>shape = [1, 3, 1, 1], data = [0, 1 / 2, 254 / 255]\<rparr>"
  let ?F = "\<lparr>shape = [1, 1536], data = replicate 1536 (1 / 2 :: real)\<rparr>"
  have c: "canonicalize ?img = Inr ?img"
    by (simp add: canonicalize_def torch_max_def torch_min_def Let_def)
  have t: "transforms example_env ?img = Inr ?img"
    by (simp add: example_env_def)
  have n: "net (example_encoder False True) ?img None = Inr ?F"
    by (simp add: example_encoder_def example_backbone_def)
  have w: "wf_tensor ?F" by (simp add: wf_tensor_def)
  have p: "pooling (example_encoder False True)" by (simp add: example_encoder_def)
  show ?thesis
    using forward_without_context [of example_env "example_encoder False True" ?img ?img ?img ?F 1 1536]
      c t n w p
    by simp
qed

lemma conv2d_forward_shape:
  assumes "conv2d_forward cv t = Inr out" "shape t = [b, c, h, w]"
  shows "shape out = [b, out_channels cv, h, w]"
  using assms by (auto simp: conv2d_forward_def Let_def split: if_splits)

lemma conv2d_forward_wf:
  assumes "conv2d_forward cv t = Inr out"
  shows "wf_tensor out"
  using assms
  by (auto simp: conv2d_forward_def Let_def wf_tensor_def length_tabulate4 split: if_splits)

lemma forward_result:
  assumes bc: "backbone_contract (net self)"
    and fc: "film_contract (film_forward (film_layer self))"
    and oc: "0 < out_channels (conv1x1 self)"
  shows "snd (forward env self image0 context) =
     (if include_top self \<and> context \<noteq> None then Inl ContextWithIncludeTop
      else case canonicalize image0 of Inl e \<Rightarrow> Inl e | Inr image1 \<Rightarrow>
        (case transforms env image1 of Inl e \<Rightarrow> Inl e | Inr image2 \<Rightarrow>
          (case net self image2 context of Inl e \<Rightarrow> Inl e | Inr f0 \<Rightarrow>
            (case context of
               None \<Rightarrow> Inr f0
             | Some c \<Rightarrow>
                 (case conv2d_forward (conv1x1 self) (f0\<lparr>shape := shape f0 @ [1, 1]\<rparr>) of
                    Inl e \<Rightarrow> Inl e
                  | Inr f3 \<Rightarrow>
                      (case film_forward (film_layer self) f3 c of
                         Inl e \<Rightarrow> Inl e
                       | Inr f4 \<Rightarrow> Inr \<lparr>shape = take 2 (shape f4), data = data f4\<rparr>))))))"
proof (cases "include_top self \<and> context \<noteq> None")
  case True
  then show ?thesis by (simp add: forward_def and_then_pair pure_step_def)
next
  case top: False
  show ?thesis
  proof (cases "canonicalize image0")
    case (Inl e)
    then show ?thesis using top by (auto simp: forward_def and_then_pair pure_step_def)
  next
    case c: (Inr image1)
    show ?thesis
    proof (cases "transforms env image1")
      case (Inl e)
      then show ?thesis
        using top c by (auto simp: forward_def and_then_pair pure_step_def invoke_def)
    next
      case t: (Inr image2)
      show ?thesis
      proof (cases "net self image2 context")
        case (Inl e)
        then show ?thesis
          using top c t by (auto simp: forward_def and_then_pair pure_step_def invoke_def)
      next
        case n: (Inr f0)
        from bc n have wf0: "wf_tensor f0" and r2: "length (shape f0) = 2"
          and pos: "0 < shape f0 ! 1"
          unfolding backbone_contract_def by blast+
        from r2 obtain b ch where sf: "shape f0 = [b, ch]"
          by (auto simp: length_Suc_conv numeral_2_eq_2)
        have chpos: "0 < ch" using pos sf by simp
        let ?f2 = "f0\<lparr>shape := [b, ch, 1, 1]\<rparr>"
        have sf2: "shape ?f2 = [b, ch, 1, 1]" by simp
        have wf2: "wf_tensor ?f2" using wf0 sf by (simp add: wf_tensor_def)
        show ?thesis
        proof (cases "context")
          case None
          have pool: "avg_pool2d ?f2 (1, 1) = Inr ?f2"
            by (rule avg_pool2d_unit [OF sf2 chpos wf2])
          have flat: "flatten1 ?f2 = Inr f0"
            using sf by (cases f0) (simp add: flatten1_def)
          show ?thesis
            using top c t n None sf pool flat
            by (auto simp: forward_def and_then_pair unsqueeze_def pure_step_def invoke_def)
        next
          case (Some cx)
          show ?thesis
          proof (cases "conv2d_forward (conv1x1 self) ?f2")
            case (Inl e)
            then show ?thesis
              using top c t n Some sf
              by (auto simp: forward_def and_then_pair unsqueeze_def pure_step_def invoke_def)
          next
            case cv: (Inr f3)
            have sf3: "shape f3 = [b, out_channels (conv1x1 self), 1, 1]"
              by (rule conv2d_forward_shape [OF cv sf2])
            show ?thesis
            proof (cases "film_forward (film_layer self) f3 cx")
              case (Inl e)
              then show ?thesis
                using top c t n Some sf cv
                by (auto simp: forward_def and_then_pair unsqueeze_def pure_step_def invoke_def)
            next
              case fl: (Inr f4)
              have wf3: "wf_tensor f3" by (rule conv2d_forward_wf [OF cv])
              from fc fl wf3 have wf4: "wf_tensor f4" and "shape f4 = shape f3"
                unfolding film_contract_def by blast+
              then have sf4: "shape f4 = [b, out_channels (conv1x1 self), 1, 1]"
                using sf3 by simp
              have pool: "avg_pool2d f4 (1, 1) = Inr f4"
                by (rule avg_pool2d_unit [OF sf4 oc wf4])
              have flat: "flatten1 f4 = Inr \<lparr>shape = take 2 (shape f4), data = data f4\<rparr>"
                using sf4 by (simp add: flatten1_def)
              show ?thesis
                using top c t n Some sf cv fl sf4 pool flat
                by (auto simp: forward_def and_then_pair unsqueeze_def pure_step_def invoke_def)
            qed
          qed
        qed
      qed
    qed
  qed
qed

lemma example_backbone_contract: "backbone_contract (example_backbone with_top)"
  by (auto simp: backbone_contract_def example_backbone_def wf_tensor_def)

lemma example_film_contract: "film_contract (\<lambda>x c. Inr x)"
  by (simp add: film_contract_def)

lemma conv2d_forward_ok:
  assumes "shape t = [b, c, h, w]" "c = in_channels cv"
  shows "\<exists>out. conv2d_forward cv t = Inr out \<and> shape out = [b, out_channels cv, h, w]
           \<and> wf_tensor out"
  using assms by (simp add: conv2d_forward_def Let_def wf_tensor_def length_tabulate4)

lemma conv2d_forward_mismatch:
  assumes "shape t = [b, c, h, w]" "c \<noteq> in_channels cv"
  shows "conv2d_forward cv t = Inl RuntimeError"
  using assms by (simp add: conv2d_forward_def Let_def)

lemma forward_features_pair:
  assumes "canonicalize image0 = Inr image1" "transforms env image1 = Inr image2"
    and "net self image2 None = Inr f0"
    and "wf_tensor f0" "shape f0 = [b, ch]" "0 < ch"
  shows "forward env self image0 None =
           ([Preprocess, Net] @ (if pooling self then [AvgPool2d] else []), Inr f0)"
proof -
  let ?f = "f0\<lparr>shape := [b, ch, 1, 1]\<rparr>"
  have sf: "shape ?f = [b, ch, 1, 1]" by simp
  have wf: "wf_tensor ?f" using assms(4,5) by (simp add: wf_tensor_def)
  have pool: "avg_pool2d ?f (1, 1) = Inr ?f"
    by (rule avg_pool2d_unit [OF sf assms(6) wf])
  have flat: "flatten1 ?f = Inr f0"
    using assms(5) by (cases f0) (simp add: flatten1_def)
  show ?thesis
    using assms pool flat
    by (simp add: forward_def and_then_pair unsqueeze_def pure_step_def invoke_def)
qed

lemma forward_conditioned_pair:
  assumes "\<not> include_top self"
    and "canonicalize image0 = Inr image1" "transforms env image1 = Inr image2"
    and "net self image2 (Some cx) = Inr f0"
    and "shape f0 = [b, ch]"
    and "conv2d_forward (conv1x1 self) (f0\<lparr>shape := [b, ch, 1, 1]\<rparr>) = Inr f3"
    and "film_forward (film_layer self) f3 cx = Inr f4"
    and "shape f4 = [b, oc, 1, 1]" "wf_tensor f4" "0 < oc"
  shows "forward env self image0 (Some cx) =
           ([Preprocess, Net, Conv1x1, FilmLayer] @ (if pooling self then [AvgPool2d] else []),
            Inr \<lparr>shape = [b, oc], data = data f4\<rparr>)"
proof -
  have pool: "avg_pool2d f4 (1, 1) = Inr f4"
    by (rule avg_pool2d_unit [OF assms(8,10,9)])
  have flat: "flatten1 f4 = Inr \<lparr>shape = [b, oc], data = data f4\<rparr>"
    using assms(8) by (simp add: flatten1_def)
  show ?thesis
    using assms(1-8) pool flat
    by (simp add: forward_def and_then_pair unsqueeze_def pure_step_def invoke_def)
qed

lemma forward_conditioned_film_error:
  assumes "\<not> include_top self"
    and "canonicalize image0 = Inr image1" "transforms env image1 = Inr image2"
    and "net self image2 (Some cx) = Inr f0"
    and "shape f0 = [b, ch]"
    and "conv2d_forward (conv1x1 self) (f0\<lparr>shape := [b, ch, 1, 1]\<rparr>) = Inr f3"
    and "film_forward (film_layer self) f3 cx = Inl e"
  shows "forward env self image0 (Some cx) = ([Preprocess, Net, Conv1x1, FilmLayer], Inl e)"
  using assms
  by (simp add: forward_def and_then_pair unsqueeze_def pure_step_def invoke_def)

lemma forward_conditioned_conv_error:
  assumes "\<not> include_top self"
    and "canonicalize image0 = Inr image1" "transforms env image1 = Inr image2"
    and "net self image2 (Some cx) = Inr f0"
    and "shape f0 = [b, ch]"
    and "conv2d_forward (conv1x1 self) (f0\<lparr>shape := [b, ch, 1, 1]\<rparr>) = Inl e"
  shows "forward env self image0 (Some cx) = ([Preprocess, Net, Conv1x1], Inl e)"
  using assms
  by (simp add: forward_def and_then_pair unsqueeze_def pure_step_def invoke_def)

lemma tabulate4_channels:
  "tabulate4 (Suc 0) n (Suc 0) (Suc 0) g = map (\<lambda>j. g 0 j 0 0) [0..<n]"
  by (simp add: tabulate4_def)

lemma sum_list_delta:
  "(\<Sum>ic\<leftarrow>[0..<n]. (if oc = ic then 1 else 0) * g ic) = (if oc < n then g oc else (0::real))"
  by (induction n) (auto simp: less_Suc_eq)

lemma example_conv2d_forward:
  "conv2d_forward \<lparr>in_channels = 1536, out_channels = 512, weight = (\<lambda>oc ic. if oc = ic then 1 else 0)\<rparr>
     \<lparr>shape = [1, 1536, 1, 1], data = replicate 1536 (1 / 2)\<rparr>
   = Inr \<lparr>shape = [1, 512, 1, 1], data = replicate 512 (1 / 2)\<rparr>"
proof -
  have "map (\<lambda>j. \<Sum>ic\<leftarrow>[0..<1536]. (if j = ic then 1 else 0) *
           at4 \<lparr>shape = [1, 1536, 1, 1], data = replicate 1536 (1 / 2)\<rparr> 0 ic 0 0) [0..<512]
        = map (\<lambda>j. 1 / 2) [0..<512]"
    by (rule map_cong [OF refl]) (simp add: sum_list_delta at4_def)
  also have "\<dots> = replicate 512 (1 / 2)"
    by (simp add: map_replicate_const)
  finally show ?thesis
    by (simp add: conv2d_forward_def Let_def tabulate4_channels)
qed

text \<open>
  Claim C5. Take two encoders built from the same arguments but for the pooling flag,
  and let the backbone and the conditioner keep their contracts (well-formed features of
  shape \<open>(b, c)\<close> with \<open>c\<close> positive; a feature map of the shape of the one given,
  well-formed when that one is). On every image and every context the two encoders
  return the same feature vector, element for element, or raise the same exception.
  Moreover, when the image passes the canonicalization, the preprocessing returns and the
  backbone returns features \<open>f0\<close> (and the call is not one that the top-layer check
  refuses), the two calls are determined stage by stage:
  \<^item> without a context both return \<open>f0\<close> itself, a well-formed tensor of shape
    \<open>(b, c)\<close>, the width of the backbone; the pooling encoder has called the average
    pooling, the other has not;
  \<^item> with a context and a backbone of a width other than 1536, both raise at the 1x1
    convolution;
  \<^item> with a context and a backbone of width 1536, the convolution returns a well-formed
    map of shape \<open>(b, 512, 1, 1)\<close>; if the conditioner raises, both encoders raise the
    same exception; if it returns \<open>f4\<close>, both return the elements of \<open>f4\<close> with the
    shape \<open>(b, 512)\<close>, a well-formed tensor of \<open>b * 512\<close> elements, the pooling
    encoder after one more call, to the average pooling, which over the spatial extent
    1x1 changes nothing.
\<close>

theorem pooling_makes_no_difference:
  assumes "init env model_variant weights with_top True = Inr enc_pool"
    and "init env model_variant weights with_top False = Inr enc_flat"
    and "backbone_contract (net enc_flat)"
    and "film_contract (FilmConditioning env 512)"
  shows "snd (forward env enc_pool image0 context) = snd (forward env enc_flat image0 context) \<and>
    (canonicalize image0 = Inr image1 \<and> transforms env image1 = Inr image2 \<and>
     net enc_flat image2 context = Inr f0 \<and> \<not> (with_top \<and> context \<noteq> None) \<longrightarrow>
       (case context of
          None \<Rightarrow>
            forward env enc_flat image0 context = ([Preprocess, Net], Inr f0) \<and>
            forward env enc_pool image0 context = ([Preprocess, Net, AvgPool2d], Inr f0) \<and>
            wf_tensor f0 \<and> shape f0 = [shape f0 ! 0, shape f0 ! 1]
        | Some c \<Rightarrow>
            (shape f0 ! 1 \<noteq> 1536 \<longrightarrow>
               forward env enc_flat image0 context = ([Preprocess, Net, Conv1x1], Inl RuntimeError) \<and>
               forward env enc_pool image0 context = ([Preprocess, Net, Conv1x1], Inl RuntimeError)) \<and>
            (shape f0 ! 1 = 1536 \<longrightarrow>
               (\<exists>f3. conv2d_forward (conv1x1 enc_flat) (f0\<lparr>shape := shape f0 @ [1, 1]\<rparr>) = Inr f3 \<and>
                  shape f3 = [shape f0 ! 0, 512, 1, 1] \<and> wf_tensor f3 \<and>
                  (\<forall>e. FilmConditioning env 512 f3 c = Inl e \<longrightarrow>
                     forward env enc_flat image0 context
                       = ([Preprocess, Net, Conv1x1, FilmLayer], Inl e) \<and>
                     forward env enc_pool image0 context
                       = ([Preprocess, Net, Conv1x1, FilmLayer], Inl e)) \<and>
                  (\<forall>f4. FilmConditioning env 512 f3 c = Inr f4 \<longrightarrow>
                     forward env enc_flat image0 context
                       = ([Preprocess, Net, Conv1x1, FilmLayer],
                          Inr \<lparr>shape = [shape f0 ! 0, 512], data = data f4\<rparr>) \<and>
                     forward env enc_pool image0 context
                       = ([Preprocess, Net, Conv1x1, FilmLayer, AvgPool2d],
                          Inr \<lparr>shape = [shape f0 ! 0, 512], data = data f4\<rparr>) \<and>
                     wf_tensor \<lparr>shape = [shape f0 ! 0, 512], data = data f4\<rparr>)))))"
proof -
  from assms(1,2) obtain n where
    ep: "enc_pool = \<lparr>net = n, include_top = with_top,
           conv1x1 = \<lparr>in_channels = 1536, out_channels = 512, weight = kaiming_normal env\<rparr>,
           film_layer = \<lparr>num_channels = 512, film_forward = FilmConditioning env 512\<rparr>,
           pooling = True\<rparr>"
    and ef: "enc_flat = \<lparr>net = n, include_top = with_top,
           conv1x1 = \<lparr>in_channels = 1536, out_channels = 512, weight = kaiming_normal env\<rparr>,
           film_layer = \<lparr>num_channels = 512, film_forward = FilmConditioning env 512\<rparr>,
           pooling = False\<rparr>"
    by (auto simp: init_def split: option.splits sum.splits)
  have eqs: "net enc_pool = net enc_flat" "include_top enc_pool = include_top enc_flat"
    "conv1x1 enc_pool = conv1x1 enc_flat" "film_layer enc_pool = film_layer enc_flat"
    by (simp_all add: ep ef)
  have sel: "include_top enc_flat = with_top" "in_channels (conv1x1 enc_flat) = 1536"
    "out_channels (conv1x1 enc_flat) = 512"
    "film_forward (film_layer enc_flat) = FilmConditioning env 512"
    "pooling enc_flat = False" "pooling enc_pool = True"
    by (simp_all add: ep ef)
  have bcf: "backbone_contract (net enc_flat)" by (rule assms(3))
  have bcp: "backbone_contract (net enc_pool)" using assms(3) by (simp add: eqs)
  have fcf: "film_contract (film_forward (film_layer enc_flat))" using assms(4) by (simp add: sel)
  have fcp: "film_contract (film_forward (film_layer enc_pool))" using fcf by (simp add: eqs)
  have ocf: "0 < out_channels (conv1x1 enc_flat)" by (simp add: sel)
  have ocp: "0 < out_channels (conv1x1 enc_pool)" by (simp add: eqs sel)
  have same: "snd (forward env enc_pool image0 context) = snd (forward env enc_flat image0 context)"
    unfolding forward_result [OF bcf fcf ocf] forward_result [OF bcp fcp ocp] eqs ..
  have pins: "case context of
          None \<Rightarrow>
            forward env enc_flat image0 context = ([Preprocess, Net], Inr f0) \<and>
            forward env enc_pool image0 context = ([Preprocess, Net, AvgPool2d], Inr f0) \<and>
            wf_tensor f0 \<and> shape f0 = [shape f0 ! 0, shape f0 ! 1]
        | Some c \<Rightarrow>
            (shape f0 ! 1 \<noteq> 1536 \<longrightarrow>
               forward env enc_flat image0 context = ([Preprocess, Net, Conv1x1], Inl RuntimeError) \<and>
               forward env enc_pool image0 context = ([Preprocess, Net, Conv1x1], Inl RuntimeError)) \<and>
            (shape f0 ! 1 = 1536 \<longrightarrow>
               (\<exists>f3. conv2d_forward (conv1x1 enc_flat) (f0\<lparr>shape := shape f0 @ [1, 1]\<rparr>) = Inr f3 \<and>
                  shape f3 = [shape f0 ! 0, 512, 1, 1] \<and> wf_tensor f3 \<and>
                  (\<forall>e. FilmConditioning env 512 f3 c = Inl e \<longrightarrow>
                     forward env enc_flat image0 context
                       = ([Preprocess, Net, Conv1x1, FilmLayer], Inl e) \<and>
                     forward env enc_pool image0 context
                       = ([Preprocess, Net, Conv1x1, FilmLayer], Inl e)) \<and>
                  (\<forall>f4. FilmConditioning env 512 f3 c = Inr f4 \<longrightarrow>
                     forward env enc_flat image0 context
                       = ([Preprocess, Net, Conv1x1, FilmLayer],
                          Inr \<lparr>shape = [shape f0 ! 0, 512], data = data f4\<rparr>) \<and>
                     forward env enc_pool image0 context
                       = ([Preprocess, Net, Conv1x1, FilmLayer, AvgPool2d],
                          Inr \<lparr>shape = [shape f0 ! 0, 512], data = data f4\<rparr>) \<and>
                     wf_tensor \<lparr>shape = [shape f0 ! 0, 512], data = data f4\<rparr>)))"
    if c: "canonicalize image0 = Inr image1" and t: "transforms env image1 = Inr image2"
      and nf: "net enc_flat image2 context = Inr f0"
      and nt: "\<not> (with_top \<and> context \<noteq> None)"
  proof -
    have np: "net enc_pool image2 context = Inr f0" using nf by (simp add: eqs)
    from bcf nf have wf0: "wf_tensor f0" and r2: "length (shape f0) = 2"
      and pos: "0 < shape f0 ! 1"
      unfolding backbone_contract_def by blast+
    from r2 obtain b ch where sf: "shape f0 = [b, ch]"
      by (auto simp: length_Suc_conv numeral_2_eq_2)
    have chpos: "0 < ch" using pos sf by simp
    show ?thesis
    proof (cases "context")
      case None
      have "forward env enc_flat image0 None = ([Preprocess, Net], Inr f0)"
        using forward_features_pair [OF c t nf [unfolded None] wf0 sf chpos] by (simp add: sel)
      moreover have "forward env enc_pool image0 None = ([Preprocess, Net, AvgPool2d], Inr f0)"
        using forward_features_pair [OF c t np [unfolded None] wf0 sf chpos] by (simp add: sel)
      ultimately show ?thesis using None wf0 sf by simp
    next
      case (Some cx)
      have ntf: "\<not> include_top enc_flat" and ntp: "\<not> include_top enc_pool"
        using nt Some by (simp_all add: eqs sel)
      have f2: "f0\<lparr>shape := shape f0 @ [1, 1]\<rparr> = f0\<lparr>shape := [b, ch, 1, 1]\<rparr>"
        by (simp add: sf)
      have sf2: "shape (f0\<lparr>shape := [b, ch, 1, 1]\<rparr>) = [b, ch, 1, 1]" by simp
      have mismatch: "forward env enc_flat image0 (Some cx) = ([Preprocess, Net, Conv1x1], Inl RuntimeError) \<and>
          forward env enc_pool image0 (Some cx) = ([Preprocess, Net, Conv1x1], Inl RuntimeError)"
        if ne: "ch \<noteq> 1536"
      proof -
        have cvf: "conv2d_forward (conv1x1 enc_flat) (f0\<lparr>shape := [b, ch, 1, 1]\<rparr>) = Inl RuntimeError"
          using ne by (intro conv2d_forward_mismatch [OF sf2]) (simp add: sel)
        then have cvp: "conv2d_forward (conv1x1 enc_pool) (f0\<lparr>shape := [b, ch, 1, 1]\<rparr>) = Inl RuntimeError"
          by (simp add: eqs)
        show ?thesis
          using forward_conditioned_conv_error [OF ntf c t nf [unfolded Some] sf cvf]
            forward_conditioned_conv_error [OF ntp c t np [unfolded Some] sf cvp]
          by simp
      qed
      have match: "\<exists>f3. conv2d_forward (conv1x1 enc_flat) (f0\<lparr>shape := [b, ch, 1, 1]\<rparr>) = Inr f3 \<and>
                  shape f3 = [b, 512, 1, 1] \<and> wf_tensor f3 \<and>
                  (\<forall>e. FilmConditioning env 512 f3 cx = Inl e \<longrightarrow>
                     forward env enc_flat image0 (Some cx)
                       = ([Preprocess, Net, Conv1x1, FilmLayer], Inl e) \<and>
                     forward env enc_pool image0 (Some cx)
                       = ([Preprocess, Net, Conv1x1, FilmLayer], Inl e)) \<and>
                  (\<forall>f4. FilmConditioning env 512 f3 cx = Inr f4 \<longrightarrow>
                     forward env enc_flat image0 (Some cx)
                       = ([Preprocess, Net, Conv1x1, FilmLayer],
                          Inr \<lparr>shape = [b, 512], data = data f4\<rparr>) \<and>
                     forward env enc_pool image0 (Some cx)
                       = ([Preprocess, Net, Conv1x1, FilmLayer, AvgPool2d],
                          Inr \<lparr>shape = [b, 512], data = data f4\<rparr>) \<and>
                     wf_tensor \<lparr>shape = [b, 512], data = data f4\<rparr>)"
        if eq: "ch = 1536"
      proof -
        from conv2d_forward_ok [OF sf2, of "conv1x1 enc_flat"] eq obtain f3 where
          cvf: "conv2d_forward (conv1x1 enc_flat) (f0\<lparr>shape := [b, ch, 1, 1]\<rparr>) = Inr f3"
          and sf3: "shape f3 = [b, 512, 1, 1]" and wf3: "wf_tensor f3"
          by (auto simp: sel)
        have cvp: "conv2d_forward (conv1x1 enc_pool) (f0\<lparr>shape := [b, ch, 1, 1]\<rparr>) = Inr f3"
          using cvf by (simp add: eqs)
        have err: "forward env enc_flat image0 (Some cx)
                       = ([Preprocess, Net, Conv1x1, FilmLayer], Inl e) \<and>
                   forward env enc_pool image0 (Some cx)
                       = ([Preprocess, Net, Conv1x1, FilmLayer], Inl e)"
          if fl: "FilmConditioning env 512 f3 cx = Inl e" for e
        proof -
          have flf: "film_forward (film_layer enc_flat) f3 cx = Inl e" using fl by (simp add: sel)
          have flp: "film_forward (film_layer enc_pool) f3 cx = Inl e" using flf by (simp add: eqs)
          show ?thesis
            using forward_conditioned_film_error [OF ntf c t nf [unfolded Some] sf cvf flf]
              forward_conditioned_film_error [OF ntp c t np [unfolded Some] sf cvp flp]
            by simp
        qed
        have ok: "forward env enc_flat image0 (Some cx)
                       = ([Preprocess, Net, Conv1x1, FilmLayer],
                          Inr \<lparr>shape = [b, 512], data = data f4\<rparr>) \<and>
                  forward env enc_pool image0 (Some cx)
                       = ([Preprocess, Net, Conv1x1, FilmLayer, AvgPool2d],
                          Inr \<lparr>shape = [b, 512], data = data f4\<rparr>) \<and>
                  wf_tensor \<lparr>shape = [b, 512], data = data f4\<rparr>"
          if fl: "FilmConditioning env 512 f3 cx = Inr f4" for f4
        proof -
          have flf: "film_forward (film_layer enc_flat) f3 cx = Inr f4" using fl by (simp add: sel)
          have flp: "film_forward (film_layer enc_pool) f3 cx = Inr f4" using flf by (simp add: eqs)
          from assms(4) fl wf3 have wf4: "wf_tensor f4" and "shape f4 = shape f3"
            unfolding film_contract_def by blast+
          then have sf4: "shape f4 = [b, 512, 1, 1]" using sf3 by simp
          have pos512: "(0::nat) < 512" by simp
          have wfo: "wf_tensor \<lparr>shape = [b, 512], data = data f4\<rparr>"
            using wf4 sf4 by (simp add: wf_tensor_def)
          show ?thesis
            using forward_conditioned_pair [OF ntf c t nf [unfolded Some] sf cvf flf sf4 wf4 pos512]
              forward_conditioned_pair [OF ntp c t np [unfolded Some] sf cvp flp sf4 wf4 pos512]
              wfo
            by (simp add: sel)
        qed
        show ?thesis using cvf sf3 wf3 err ok by blast
      qed
      show ?thesis
        unfolding Some option.case f2 using mismatch match by (simp add: sf)
    qed
  qed
  show ?thesis using same pins by blast
qed

theorem pooling_makes_no_difference_witness:
  "init example_env ''b3'' (Some ''DEFAULT'') False True = Inr (example_encoder False True) \<and>
   init example_env ''b3'' (Some ''DEFAULT'') False False = Inr (example_encoder False False) \<and>
   backbone_contract (net (example_encoder False False)) \<and>
   film_contract (FilmConditioning example_env 512) \<and>
   canonicalize \<lparr>shape = [1, 3, 1, 1], data = [0, 1 / 2, 254 / 255]\<rparr>
     = Inr \<lparr>shape = [1, 3, 1, 1], data = [0, 1 / 2, 254 / 255]\<rparr> \<and>
   transforms example_env \<lparr>shape = [1, 3, 1, 1], data = [0, 1 / 2, 254 / 255]\<rparr>
     = Inr \<lparr>shape = [1, 3, 1, 1], data = [0, 1 / 2, 254 / 255]\<rparr> \<and>
   net (example_encoder False False) \<lparr>shape = [1, 3, 1, 1], data = [0, 1 / 2, 254 / 255]\<rparr>
       (Some \<lparr>shape = [1, 1], data = [0]\<rparr>)
     = Inr \<lparr>shape = [1, 1536], data = replicate 1536 (1 / 2)\<rparr> \<and>
   net (example_encoder False False) \<lparr>shape = [1, 3, 1, 1], data = [0, 1 / 2, 254 / 255]\<rparr> None
     = Inr \<lparr>shape = [1, 1536], data = replicate 1536 (1 / 2)\<rparr> \<and>
   forward example_env (example_encoder False False)
       \<lparr>shape = [1, 3, 1, 1], data = [0, 1 / 2, 254 / 255]\<rparr> (Some \<lparr>shape = [1, 1], data = [0]\<rparr>)
     = ([Preprocess, Net, Conv1x1, FilmLayer],
        Inr \<lparr>shape = [1, 512], data = replicate 512 (1 / 2)\<rparr>) \<and>
   forward example_env (example_encoder False True)
       \<lparr>shape = [1, 3, 1, 1], data = [0, 1 / 2, 254 / 255]\<rparr> (Some \<lparr>shape = [1, 1], data = [0]\<rparr>)
     = ([Preprocess, Net, Conv1x1, FilmLayer, AvgPool2d],
        Inr \<lparr>shape = [1, 512], data = replicate 512 (1 / 2)\<rparr>) \<and>
   wf_tensor \<lparr>shape = [1, 512], data = replicate 512 (1 / 2)\<rparr> \<and>
   forward example_env (example_encoder False False)
       \<lparr>shape = [1, 3, 1, 1], data = [0, 1 / 2, 254 / 255]\<rparr> None
     = ([Preprocess, Net], Inr \<lparr>shape = [1, 1536], data = replicate 1536 (1 / 2)\<rparr>) \<and>
   forward example_env (example_encoder False True)
       \<lparr>shape = [1, 3, 1, 1], data = [0, 1 / 2, 254 / 255]\<rparr> None
     = ([Preprocess, Net, AvgPool2d], Inr \<lparr>shape = [1, 1536], data = replicate 1536 (1 / 2)\<rparr>)"
proof -
  let ?img = "\<lparr>shape = [1, 3, 1, 1], data = [0, 1 / 2, 254 / 255]\<rparr>"
  let ?ctx = "\<lparr>shape = [1, 1], data = [0]\<rparr>"
  let ?f0 = "\<lparr>shape = [1, 1536], data = replicate 1536 (1 / 2)\<rparr>"
  let ?f3 = "\<lparr>shape = [1, 512, 1, 1], data = replicate 512 (1 / 2)\<rparr>"
  have i1: "init example_env ''b3'' (Some ''DEFAULT'') False True = Inr (example_encoder False True)"
    and i2: "init example_env ''b3'' (Some ''DEFAULT'') False False = Inr (example_encoder False False)"
    by (simp_all add: init_def MODELS_def example_env_def example_encoder_def)
  have bc: "backbone_contract (net (example_encoder False False))"
    by (simp add: example_encoder_def example_backbone_contract)
  have fc: "film_contract (FilmConditioning example_env 512)"
    by (simp add: example_env_def example_film_contract)
  have c: "canonicalize ?img = Inr ?img"
    by (simp add: canonicalize_def torch_max_def torch_min_def Let_def)
  have t: "transforms example_env ?img = Inr ?img"
    by (simp add: example_env_def)
  have ns: "net (example_encoder False False) ?img (Some ?ctx) = Inr ?f0"
    and nn: "net (example_encoder False False) ?img None = Inr ?f0"
    by (simp_all add: example_encoder_def example_backbone_def)
  have cv: "conv2d_forward (conv1x1 (example_encoder False False)) (?f0\<lparr>shape := shape ?f0 @ [1, 1]\<rparr>)
      = Inr ?f3"
    using example_conv2d_forward by (simp add: example_encoder_def)
  have fl: "FilmConditioning example_env 512 x y = Inr x" for x y
    by (simp add: example_env_def)
  have conditioned:
    "forward example_env (example_encoder False False) ?img (Some ?ctx)
       = ([Preprocess, Net, Conv1x1, FilmLayer], Inr \<lparr>shape = [1, 512], data = replicate 512 (1 / 2)\<rparr>) \<and>
     forward example_env (example_encoder False True) ?img (Some ?ctx)
       = ([Preprocess, Net, Conv1x1, FilmLayer, AvgPool2d],
          Inr \<lparr>shape = [1, 512], data = replicate 512 (1 / 2)\<rparr>) \<and>
     wf_tensor \<lparr>shape = [1, 512], data = replicate 512 (1 / 2)\<rparr>"
    using pooling_makes_no_difference [OF i1 i2 bc fc, of ?img "Some ?ctx" ?img ?img ?f0] c t ns
    unfolding cv by (simp add: fl)
  have plain:
    "forward example_env (example_encoder False False) ?img None = ([Preprocess, Net], Inr ?f0) \<and>
     forward example_env (example_encoder False True) ?img None = ([Preprocess, Net, AvgPool2d], Inr ?f0)"
    using pooling_makes_no_difference [OF i1 i2 bc fc, of ?img None ?img ?img ?f0] c t nn
    by simp
  show ?thesis
    using i1 i2 bc fc c t ns nn conditioned plain by simp
qed

section \<open>Properties of the construction\<close>

text \<open>
  Claim C3, as the spec states it: the input channel width of the projector is the
  target width 512. It is not: the 1x1 convolution is built with \<^verbatim>\<open>in_channels=1536\<close>, the
  width of the backbone, and \<^verbatim>\<open>out_channels=512\<close>.
\<close>

theorem projector_width_counterexample:
  "init example_env ''b3'' (Some ''DEFAULT'') False False = Inr (example_encoder False False) \<and>
   in_channels (conv1x1 (example_encoder False False)) = 1536 \<and>
   in_channels (conv1x1 (example_encoder False False)) \<noteq> 512"
  by (simp add: init_def MODELS_def example_env_def example_encoder_def)

text \<open>
  Claim C3, amended. Every encoder that the constructor returns has a projector of input
  width 1536 and output width 512, and a conditioner of 512 channels. The encoder is a
  value that \<open>forward\<close> reads and does not return, so these widths are those of every
  later call.
\<close>

theorem construction_widths:
  "init env model_variant weights with_top pool = Inr self \<Longrightarrow>
     in_channels (conv1x1 self) = 1536 \<and> out_channels (conv1x1 self) = 512
       \<and> num_channels (film_layer self) = 512"
  by (auto simp: init_def split: option.splits sum.splits)

theorem construction_widths_witness:
  "init example_env ''b3'' (Some ''DEFAULT'') False True = Inr (example_encoder False True) \<and>
   in_channels (conv1x1 (example_encoder False True)) = 1536 \<and>
   out_channels (conv1x1 (example_encoder False True)) = 512 \<and>
   num_channels (film_layer (example_encoder False True)) = 512"
proof -
  have i: "init example_env ''b3'' (Some ''DEFAULT'') False True = Inr (example_encoder False True)"
    by (simp add: init_def MODELS_def example_env_def example_encoder_def)
  show ?thesis using construction_widths [OF i] i by simp
qed

end
